theory Spec2Isabelle
  imports Complex_Main "HOL-Library.AList"
begin

section \<open>The JavaScript string operations the program uses\<close>

text \<open>
  A JavaScript string is a sequence of UTF-16 code units. The model is \<^typ>\<open>string\<close>:
  a \<^typ>\<open>char\<close> stands for a code unit below 256 (ASCII and the Latin-1 supplement),
  which covers every literal of the program. The functions below follow ECMAScript's
  \<^verbatim>\<open>String.prototype\<close> methods on such strings; they belong to the language's
  runtime, not to the repository, and carry the runtime's names.
\<close>

text \<open>\<^verbatim>\<open>s.split(c)\<close> for a separator of one character: never an empty array.\<close>

fun split :: "string \<Rightarrow> char \<Rightarrow> string list" where
  "split [] c = [[]]"
| "split (x # xs) c =
     (if x = c then [] # split xs c
      else (case split xs c of [] \<Rightarrow> [[x]] | y # ys \<Rightarrow> (x # y) # ys))"

text \<open>\<^verbatim>\<open>xs.join(sep)\<close>.\<close>

fun join :: "string list \<Rightarrow> string \<Rightarrow> string" where
  "join [] sep = []"
| "join [x] sep = x"
| "join (x # y # ys) sep = x @ sep @ join (y # ys) sep"

text \<open>\<^verbatim>\<open>s.indexOf(c)\<close>: the position of the first \<open>c\<close>, or \<open>-1\<close>.\<close>

definition indexOf :: "string \<Rightarrow> char \<Rightarrow> int" where
  "indexOf s c = (if c \<in> set s then int (length (takeWhile (\<lambda>x. x \<noteq> c) s)) else - 1)"

text \<open>
  \<^verbatim>\<open>s.substring(a, b)\<close>: both bounds are clamped to \<open>0 .. s.length\<close> and swapped
  when \<open>a > b\<close>; \<^verbatim>\<open>s.substring(a)\<close> runs to the end of the string.
\<close>

definition clamp :: "string \<Rightarrow> int \<Rightarrow> nat" where
  "clamp s i = min (nat i) (length s)"

definition substring :: "string \<Rightarrow> int \<Rightarrow> int \<Rightarrow> string" where
  "substring s a b =
     (let from = min (clamp s a) (clamp s b); to = max (clamp s a) (clamp s b)
      in take (to - from) (drop from s))"

definition substring_from :: "string \<Rightarrow> int \<Rightarrow> string" where
  "substring_from s a = substring s a (int (length s))"

text \<open>
  \<^verbatim>\<open>s.trim()\<close> removes white space and line terminators from both ends. Below 256 these
  are TAB, LF, VT, FF, CR, SPACE and NBSP.
\<close>

definition isWhiteSpace :: "char \<Rightarrow> bool" where
  "isWhiteSpace c = (c \<in> set [CHR 0x09, CHR 0x0A, CHR 0x0B, CHR 0x0C, CHR 0x0D, CHR 0x20, CHR 0xA0])"

definition trim :: "string \<Rightarrow> string" where
  "trim s = rev (dropWhile isWhiteSpace (rev (dropWhile isWhiteSpace s)))"

text \<open>\<^verbatim>\<open>s.startsWith(p)\<close>.\<close>

definition startsWith :: "string \<Rightarrow> string \<Rightarrow> bool" where
  "startsWith s p = (take (length p) s = p)"

text \<open>
  \<^verbatim>\<open>s.replace(/\\\n/, ' ')\<close>: the pattern is a backslash followed by a line feed; it has
  no \<^verbatim>\<open>g\<close> flag, so only the first match is replaced. \<open>replace_first\<close> is that call
  with the pattern fixed.
\<close>

fun replace_first :: "string \<Rightarrow> string" where
  "replace_first (x # y # ys) =
     (if x = CHR 0x5C \<and> y = CHR 0x0A then CHR '' '' # ys else x # replace_first (y # ys))"
| "replace_first xs = xs"

text \<open>
  \<^verbatim>\<open>s.toLowerCase()\<close> and \<^verbatim>\<open>s.toUpperCase()\<close>. Below 256 the letters with another case
  are A-Z, a-z and the Latin-1 letters \<open>0xC0 .. 0xDE\<close> and \<open>0xE0 .. 0xFE\<close> without the
  signs \<open>0xD7\<close> and \<open>0xF7\<close>. Upper-casing \<open>0xB5\<close>, \<open>0xDF\<close> and \<open>0xFF\<close> leaves
  the 8-bit range; the model keeps them, which no comparison with an ASCII literal
  can tell apart.
\<close>

definition toLowerCase_char :: "char \<Rightarrow> char" where
  "toLowerCase_char c =
     (let n = (of_char c :: nat)
      in if (65 \<le> n \<and> n \<le> 90) \<or> (192 \<le> n \<and> n \<le> 222 \<and> n \<noteq> 215)
         then char_of (n + 32) else c)"

definition toUpperCase_char :: "char \<Rightarrow> char" where
  "toUpperCase_char c =
     (let n = (of_char c :: nat)
      in if (97 \<le> n \<and> n \<le> 122) \<or> (224 \<le> n \<and> n \<le> 254 \<and> n \<noteq> 247)
         then char_of (n - 32) else c)"

definition toLowerCase :: "string \<Rightarrow> string" where
  "toLowerCase s = map toLowerCase_char s"

definition toUpperCase :: "string \<Rightarrow> string" where
  "toUpperCase s = map toUpperCase_char s"

section \<open>Objects and values\<close>

text \<open>
  A plain JavaScript object with string values (a header set, the result of the
  properties parse) is the list of its own enumerable properties in property order:
  assigning to an existing key keeps its place, assigning to a new key appends it.
  Only that order decides which of two keys wins when both are mapped to the same
  name. (Integer-like keys, which JavaScript enumerates first, cannot collide with
  others under the operations below; the accessor \<^verbatim>\<open>__proto__\<close> that every object
  inherits is outside the model.)
\<close>

type_synonym obj = "(string \<times> string) list"

text \<open>\<^verbatim>\<open>ob[k] = v\<close>.\<close>

definition put :: "obj \<Rightarrow> string \<Rightarrow> string \<Rightarrow> obj" where
  "put ob k v = AList.update k v ob"

text \<open>\<^verbatim>\<open>ob[k]\<close>, \<open>None\<close> for \<^verbatim>\<open>undefined\<close>.\<close>

definition get :: "obj \<Rightarrow> string \<Rightarrow> string option" where
  "get ob k = map_of ob k"

text \<open>
  Two functions of lodash, after its documentation. \<^verbatim>\<open>_.assignIn(object, ...sources)\<close>
  assigns the enumerable properties of the sources to \<open>object\<close>, sources from left to
  right, a later one overwriting an earlier one. \<^verbatim>\<open>_.transform(object, iteratee)\<close> folds
  the own enumerable properties of \<open>object\<close>, in order, into a new empty object.
\<close>

definition assignIn :: "obj \<Rightarrow> obj list \<Rightarrow> obj" where
  "assignIn object sources =
     foldl (\<lambda>dst src. foldl (\<lambda>d (k, v). put d k v) dst src) object sources"

definition transform :: "obj \<Rightarrow> (obj \<Rightarrow> string \<Rightarrow> string \<Rightarrow> obj) \<Rightarrow> obj" where
  "transform object iteratee = foldl (\<lambda>result (key, val). iteratee result val key) [] object"

text \<open>
  The values \<^verbatim>\<open>JSON.parse\<close> returns. A number is carried as a rational (every finite
  double is one); only whether it is zero is ever inspected.
\<close>

datatype json =
    JNull
  | JBool bool
  | JNumber rat
  | JString string
  | JArray "json list"
  | JObject "(string \<times> json) list"

text \<open>What \<^verbatim>\<open>if (v)\<close> takes for true.\<close>

fun truthy :: "json \<Rightarrow> bool" where
  "truthy JNull = False"
| "truthy (JBool b) = b"
| "truthy (JNumber n) = (n \<noteq> 0)"
| "truthy (JString s) = (s \<noteq> [])"
| "truthy (JArray xs) = True"
| "truthy (JObject ps) = True"

text \<open>An object with string values, as a value.\<close>

definition object_value :: "obj \<Rightarrow> json" where
  "object_value ob = JObject (map (\<lambda>(k, v). (k, JString v)) ob)"

section \<open>The helper functions of \<^verbatim>\<open>http-request-cli.js\<close>\<close>

text \<open>
  \<^verbatim>\<open>keysToLower\<close> (lines 39-43):
  \<^verbatim>\<open>_.transform(obj, (result, val, key) => { result[key.toLowerCase()] = val; })\<close>.
\<close>

definition keysToLower :: "obj \<Rightarrow> obj" where
  "keysToLower ob = transform ob (\<lambda>result val key. put result (toLowerCase key) val)"

text \<open>
  \<^verbatim>\<open>props2json\<close> (lines 45-57, the same text in \<^verbatim>\<open>http-cli.js\<close>). \<open>props2json_line\<close>
  is the callback given to \<^verbatim>\<open>reduce\<close>.
\<close>

definition props2json_line :: "obj \<Rightarrow> string \<Rightarrow> obj" where
  "props2json_line ob line =
     (let eqIdx = indexOf line (CHR ''='');
          eqIdx = (if eqIdx > 0 then eqIdx else int (length line));
          key = trim (substring line 0 eqIdx);
          value = trim (substring_from line (eqIdx + 1))
      in put ob key value)"

definition props2json :: "string \<Rightarrow> obj" where
  "props2json props = foldl props2json_line [] (split (replace_first props) (CHR 0x0A))"

text \<open>
  \<^verbatim>\<open>addHeader\<close> (lines 257-261, the same text in \<^verbatim>\<open>http-cli.js\<close>). \<^verbatim>\<open>split\<close> never
  returns an empty array; on one, \<^verbatim>\<open>headerItems[0]\<close> would be \<^verbatim>\<open>undefined\<close>.
\<close>

definition addHeader :: "string \<Rightarrow> obj \<Rightarrow> obj" where
  "addHeader header headers =
     (let headerItems = split header (CHR ''='')
      in case headerItems of
           [] \<Rightarrow> put headers ''undefined'' []
         | item0 # rest \<Rightarrow>
             put headers item0 (if length headerItems > 1 then headerItems ! 1 else []))"

text \<open>
  The option \<^verbatim>\<open>-H\<close> is declared with \<^verbatim>\<open>addHeader\<close> as its processing function and
  \<^verbatim>\<open>{}\<close> as its default (line 273): commander calls \<^verbatim>\<open>addHeader(arg, previous)\<close> for
  each occurrence, in command-line order, and stores the result in
  \<^verbatim>\<open>commander.header\<close>.
\<close>

definition header_option :: "string list \<Rightarrow> obj" where
  "header_option args = foldl (\<lambda>headers header. addHeader header headers) [] args"

section \<open>The command line, the request and the environment\<close>

text \<open>
  \<^verbatim>\<open>commander\<close> after \<^verbatim>\<open>commander.parse(process.argv)\<close> (lines 267-278): the options
  the request is built from. An option with a required argument is a string or
  \<^verbatim>\<open>undefined\<close>; \<^verbatim>\<open>-d [data]\<close> has an optional argument and is \<^verbatim>\<open>true\<close> when given
  without one; \<^verbatim>\<open>header\<close> is always an object, \<^verbatim>\<open>{}\<close> by default.
\<close>

datatype arg = Bool_true | Str string

record commander =
  verbose :: bool
  "output" :: "string option"
  header :: obj
  data :: "arg option"
  datafile :: "string option"
  type :: "string option"
  proxy :: "string option"
  cookie :: "string option"

text \<open>
  \<^verbatim>\<open>if (commander.x)\<close> on a string option: \<^verbatim>\<open>undefined\<close> and the empty string are
  false. \<open>given\<close> returns the string when the test succeeds.
\<close>

definition given :: "string option \<Rightarrow> string option" where
  "given a = (case a of None \<Rightarrow> None | Some s \<Rightarrow> if s = [] then None else Some s)"

text \<open>
  The argument of \<^verbatim>\<open>axios(options)\<close>. The body \<^verbatim>\<open>options.data\<close> is a value (parsed
  JSON or the object of the properties parse) or the \<^verbatim>\<open>FormData\<close> with the one part
  \<^verbatim>\<open>form.append('file', data, {filepath, contentType})\<close>; \<open>None\<close> is
  \<^verbatim>\<open>undefined\<close>.
\<close>

record proxy_config =
  host :: string
  port :: string
  auth :: "(string \<times> string) option"

record form_data =
  part_name :: string
  part_content :: string
  filepath :: string
  contentType :: "string option"

datatype body = Value json | Form form_data

record options =
  url :: string
  "method" :: string
  responseType :: "string option"
  headers :: obj
  data :: "body option"
  proxy :: "proxy_config option"

fun body_truthy :: "body option \<Rightarrow> bool" where
  "body_truthy None = False"
| "body_truthy (Some (Value v)) = truthy v"
| "body_truthy (Some (Form f)) = True"

text \<open>
  What the program reads from outside itself. The file system maps a path to a file
  with its content or to a directory. \<^verbatim>\<open>JSON.parse\<close>, \<^verbatim>\<open>new URL\<close>,
  \<^verbatim>\<open>mime.contentType\<close> and \<^verbatim>\<open>JSON.stringify\<close> are functions of the runtime and of
  libraries: they are parameters, \<open>None\<close> standing for the exception of the first
  two and for \<^verbatim>\<open>false\<close> of the third. \<open>form_boundary\<close> is the boundary the
  \<^verbatim>\<open>FormData\<close> draws for itself.
\<close>

datatype node = File string | Directory

record url_parts =
  protocol :: string
  hostname :: string
  port :: string
  username :: string
  password :: string

record env =
  fs :: "string \<Rightarrow> node option"
  JSON_parse :: "string \<Rightarrow> json option"
  URL_parse :: "string \<Rightarrow> url_parts option"
  mime_contentType :: "string \<Rightarrow> string option"
  form_boundary :: string
  JSON_stringify_proxy :: "proxy_config \<Rightarrow> string"
  JSON_stringify_options :: "options \<Rightarrow> string"

datatype js_error =
    ENOENT string
  | EISDIR string
  | Invalid_URL string
  | Not_a_function string

definition existsSync :: "env \<Rightarrow> string \<Rightarrow> bool" where
  "existsSync e path = (fs e path \<noteq> None)"

definition readFileSync :: "env \<Rightarrow> string \<Rightarrow> js_error + string" where
  "readFileSync e path =
     (case fs e path of
        None \<Rightarrow> Inl (ENOENT path)
      | Some Directory \<Rightarrow> Inl (EISDIR path)
      | Some (File content) \<Rightarrow> Inr content)"

text \<open>\<^verbatim>\<open>form.getHeaders()\<close> of form-data: the content type with the boundary.\<close>

definition getHeaders :: "env \<Rightarrow> obj" where
  "getHeaders e = [(''content-type'', ''multipart/form-data; boundary='' @ form_boundary e)]"

text \<open>
  What is printed: \<^verbatim>\<open>logverbose\<close> (lines 74-82) prints only under \<^verbatim>\<open>-v\<close>, its data
  through \<^verbatim>\<open>prettyjson.render\<close>; \<^verbatim>\<open>logwarn\<close>, \<^verbatim>\<open>logerr\<close> and \<^verbatim>\<open>logsuccess\<close> print
  always. The colours of chalk and the spinner are not modelled.
\<close>

datatype log_entry =
    Verbose string
  | Rendered obj
  | Warning string
  | Error string
  | Success string

definition logverbose :: "commander \<Rightarrow> string \<Rightarrow> obj option \<Rightarrow> log_entry list" where
  "logverbose cmd msg dat =
     (if verbose cmd
      then Verbose msg # (case dat of None \<Rightarrow> [] | Some d \<Rightarrow> [Rendered d])
      else [])"

definition logwarn :: "string \<Rightarrow> log_entry list" where
  "logwarn msg = [Warning msg]"


text \<open>\<^verbatim>\<open>getContentTypes\<close> (lines 59-67).\<close>

definition getContentTypes :: "env \<Rightarrow> string \<Rightarrow> string" where
  "getContentTypes e t =
     (case given (mime_contentType e t) of
        None \<Rightarrow> ''application/x-www-form-urlencoded''
      | Some ctype \<Rightarrow> ctype)"

section \<open>\<^verbatim>\<open>sendRequest\<close> of \<^verbatim>\<open>http-request-cli.js\<close>\<close>

text \<open>
  The function (lines 119-246) in its blocks, each a definition of its own; its
  arguments \<^verbatim>\<open>method\<close> and \<^verbatim>\<open>url\<close> are written \<open>method0\<close> and \<open>url0\<close>, the
  plain names being the fields of \<^verbatim>\<open>options\<close>. Lines
  124-139: the options object, the URL, the response type and the headers.
  \<^verbatim>\<open>options.headers\<close> is \<^verbatim>\<open>commander.header\<close> itself, which is never false.
\<close>

definition sendRequest_options :: "commander \<Rightarrow> string \<Rightarrow> string \<Rightarrow> options" where
  "sendRequest_options cmd method0 url0 =
     (let options = \<lparr>url = url0, method = method0, responseType = None,
                      headers = header cmd, data = None, proxy = None\<rparr>;
          options = (if \<not> startsWith (options.url options) ''http''
                     then options\<lparr>url := ''https://'' @ options.url options\<rparr>
                     else options);
          options = (if given (output cmd) \<noteq> None
                     then options\<lparr>responseType := Some ''stream''\<rparr>
                     else options)
      in options)"

text \<open>
  Lines 141-167: the body. \<^verbatim>\<open>fs.readFileSync\<close> throws on a missing file, and the
  exception leaves \<^verbatim>\<open>sendRequest\<close>. \<^verbatim>\<open>JSON.parse(true)\<close> parses the text
  \<^verbatim>\<open>true\<close>; were that to fail, \<^verbatim>\<open>props2json(true)\<close> would throw.
\<close>

definition sendRequest_type :: "env \<Rightarrow> commander \<Rightarrow> options \<Rightarrow> options" where
  "sendRequest_type e cmd options =
     (case given (type cmd) of
        None \<Rightarrow> options
      | Some t \<Rightarrow>
          options\<lparr>headers := put (options.headers options) ''content-type'' (getContentTypes e t)\<rparr>)"

definition sendRequest_data :: "env \<Rightarrow> commander \<Rightarrow> options \<Rightarrow> js_error + options" where
  "sendRequest_data e cmd options =
     (case given (datafile cmd) of
        Some file \<Rightarrow>
          (case readFileSync e file of
             Inl err \<Rightarrow> Inl err
           | Inr content \<Rightarrow>
               let form = \<lparr>part_name = ''file'', part_content = content, filepath = file,
                           contentType = mime_contentType e file\<rparr>
               in Inr (options\<lparr>headers := assignIn (options.headers options) [getHeaders e],
                                data := Some (Form form)\<rparr>))
      | None \<Rightarrow>
          (case commander.data cmd of
             None \<Rightarrow> Inr options
           | Some Bool_true \<Rightarrow>
               (case JSON_parse e ''true'' of
                  Some v \<Rightarrow> Inr (sendRequest_type e cmd (options\<lparr>data := Some (Value v)\<rparr>))
                | None \<Rightarrow> Inl (Not_a_function ''props.replace''))
           | Some (Str d) \<Rightarrow>
               if d = [] then Inr options
               else
                 (case JSON_parse e d of
                    Some v \<Rightarrow> Inr (sendRequest_type e cmd (options\<lparr>data := Some (Value v)\<rparr>))
                  | None \<Rightarrow>
                      Inr (sendRequest_type e cmd
                            (options\<lparr>data := Some (Value (object_value (props2json d)))\<rparr>)))))"

text \<open>Lines 169-172: a body is not sent with GET.\<close>

definition sendRequest_method :: "string \<Rightarrow> options \<Rightarrow> options \<times> log_entry list" where
  "sendRequest_method method0 options =
     (if body_truthy (options.data options) \<and> toUpperCase method0 = ''GET''
      then (options\<lparr>method := ''POST''\<rparr>, logwarn ''Cannot send data with GET, POST will be used'')
      else (options, []))"

text \<open>
  Lines 174-183: the cookie file. \<open>cookie_value\<close> is the expression of lines 177-180,
  which \<^verbatim>\<open>http-cli.js\<close> has too (lines 153-156).
\<close>

definition cookie_value :: "string \<Rightarrow> string" where
  "cookie_value content =
     join (map (\<lambda>v. substring v 0 (if indexOf v (CHR '';'') > 0 then indexOf v (CHR '';'')
                                     else int (length v)))
               (split content (CHR 0x0A)))
          ''; ''"

definition sendRequest_cookie :: "env \<Rightarrow> commander \<Rightarrow> options \<Rightarrow> js_error + options" where
  "sendRequest_cookie e cmd options =
     (case given (cookie cmd) of
        None \<Rightarrow> Inr options
      | Some path \<Rightarrow>
          if existsSync e path
          then (case readFileSync e path of
                  Inl err \<Rightarrow> Inl err
                | Inr content \<Rightarrow>
                    Inr (options\<lparr>headers := put (options.headers options) ''cookie''
                                                 (cookie_value content)\<rparr>))
          else Inr options)"

text \<open>Lines 150-159 of \<^verbatim>\<open>http-cli.js\<close>: the same block, the header named \<^verbatim>\<open>Cookie\<close>.\<close>

definition sendRequest_cookie_http_cli :: "env \<Rightarrow> commander \<Rightarrow> options \<Rightarrow> js_error + options" where
  "sendRequest_cookie_http_cli e cmd options =
     (case given (cookie cmd) of
        None \<Rightarrow> Inr options
      | Some path \<Rightarrow>
          if existsSync e path
          then (case readFileSync e path of
                  Inl err \<Rightarrow> Inl err
                | Inr content \<Rightarrow>
                    Inr (options\<lparr>headers := put (options.headers options) ''Cookie''
                                                 (cookie_value content)\<rparr>))
          else Inr options)"

text \<open>
  Lines 185-210: the proxy. Both \<^verbatim>\<open>new URL\<close> throw on a text that is no URL; the
  second is given \<^verbatim>\<open>url\<close>, the argument of \<^verbatim>\<open>sendRequest\<close>, not \<^verbatim>\<open>options.url\<close>.
\<close>

datatype axios_module = Axios | Axios_https_proxy_fix

definition sendRequest_proxy ::
  "env \<Rightarrow> commander \<Rightarrow> string \<Rightarrow> options \<Rightarrow> js_error + options \<times> log_entry list \<times> axios_module" where
  "sendRequest_proxy e cmd url0 options =
     (case given (commander.proxy cmd) of
        None \<Rightarrow> Inr (options, [], Axios)
      | Some p \<Rightarrow>
          (case URL_parse e p of
             None \<Rightarrow> Inl (Invalid_URL p)
           | Some proxyUrl \<Rightarrow>
               (case URL_parse e url0 of
                  None \<Rightarrow> Inl (Invalid_URL url0)
                | Some targetUrl \<Rightarrow>
                    let alt = (protocol proxyUrl = ''http:'' \<and> protocol targetUrl = ''https:'');
                        printed1 = (if alt
                                    then logverbose cmd ''Due to a bug, use of an alternative Axios'' None
                                    else []);
                        axios = (if alt then Axios_https_proxy_fix else Axios);
                        pr = \<lparr>host = hostname proxyUrl, port = url_parts.port proxyUrl,
                              auth = (if username proxyUrl \<noteq> []
                                      then Some (username proxyUrl, password proxyUrl)
                                      else None)\<rparr>;
                        options = options\<lparr>proxy := Some pr\<rparr>;
                        printed2 = logverbose cmd (''Proxy='' @ JSON_stringify_proxy e pr) None
                    in Inr (options, printed1 @ printed2, axios))))"

text \<open>
  The whole of lines 119-216: what has been printed, and either the call
  \<^verbatim>\<open>axios(options)\<close> of the chosen module or the exception that left the function.
\<close>

datatype outcome = Called options axios_module | Thrown js_error

definition sendRequest :: "env \<Rightarrow> commander \<Rightarrow> string \<Rightarrow> string \<Rightarrow> log_entry list \<times> outcome" where
  "sendRequest e cmd method0 url0 =
     (let printed = logverbose cmd (''Sending '' @ toUpperCase method0 @ '' request to '' @ url0) None;
          options = sendRequest_options cmd method0 url0
      in case sendRequest_data e cmd options of
           Inl err \<Rightarrow> (printed, Thrown err)
         | Inr options \<Rightarrow>
             let (options, warn) = sendRequest_method method0 options;
                 printed = printed @ warn
             in case sendRequest_cookie e cmd options of
                  Inl err \<Rightarrow> (printed, Thrown err)
                | Inr options \<Rightarrow>
                    (case sendRequest_proxy e cmd url0 options of
                       Inl err \<Rightarrow> (printed, Thrown err)
                     | Inr (options, plog, axios) \<Rightarrow>
                         (printed @ plog
                            @ logverbose cmd (''Options='' @ JSON_stringify_options e options) None,
                          Called options axios)))"

text \<open>
  \<^verbatim>\<open>configureMethodCommand\<close> (lines 248-255): the action of the subcommand
  \<^verbatim>\<open>method.toLowerCase()\<close> calls \<^verbatim>\<open>sendRequest(method.toUpperCase(), url)\<close>.
\<close>

definition configureMethodCommand ::
  "string \<Rightarrow> env \<Rightarrow> commander \<Rightarrow> string \<Rightarrow> log_entry list \<times> outcome" where
  "configureMethodCommand method0 e cmd url0 = sendRequest e cmd (toUpperCase method0) url0"




section \<open>The request interceptors\<close>

text \<open>
  The request as axios hands it to a request interceptor: \<^verbatim>\<open>request.headers\<close> holds
  the transport's defaults for all methods under \<^verbatim>\<open>common\<close>, its defaults per method
  under the method's name, and the headers the caller gave.
\<close>

record request_headers =
  common :: obj
  per_method :: "(string \<times> obj) list"
  own :: obj

record request =
  "method" :: string
  headers :: request_headers




section \<open>The properties parse as the specification words it\<close>

text \<open>
  The specification's parse of a data string that is not JSON: every backslash
  followed by a line feed is collapsed to a single space, the text is split on line
  feeds, each line is split on its first \<open>=\<close> and both sides are trimmed; a line
  without \<open>=\<close> maps the whole trimmed line to the empty string. The result is a
  mapping from strings to strings. These definitions follow the specification, not
  the source; \<open>props2json\<close> above is the source.
\<close>

fun collapse :: "string \<Rightarrow> string" where
  "collapse (x # y # ys) =
     (if x = CHR 0x5C \<and> y = CHR 0x0A then CHR '' '' # collapse ys else x # collapse (y # ys))"
| "collapse xs = xs"

definition properties_line :: "string \<Rightarrow> string \<times> string" where
  "properties_line l =
     (if CHR ''='' \<in> set l
      then (trim (takeWhile (\<lambda>c. c \<noteq> CHR ''='') l),
            trim (drop 1 (dropWhile (\<lambda>c. c \<noteq> CHR ''='') l)))
      else (trim l, []))"

definition properties_parse :: "string \<Rightarrow> string \<Rightarrow> string option" where
  "properties_parse d =
     foldl (\<lambda>m l. m(fst (properties_line l) \<mapsto> snd (properties_line l))) Map.empty
           (split (collapse d) (CHR 0x0A))"


section \<open>An environment and a command line for the examples\<close>

text \<open>
  The examples run in \<open>example_env\<close>: no files, and of the library functions the
  values on the texts the examples use. \<^verbatim>\<open>JSON.parse\<close> returns the number 0 on
  \<^verbatim>\<open>0\<close> and an array on \<^verbatim>\<open>[1]\<close>, and throws on the other texts used here, none of
  which is JSON; \<^verbatim>\<open>new URL\<close> accepts the two URLs listed and throws on a text without
  a scheme. \<open>example_commander\<close> is the command line without options.
\<close>

definition example_JSON_parse :: "string \<Rightarrow> json option" where
  "example_JSON_parse s =
     (if s = ''0'' then Some (JNumber 0)
      else if s = ''[1]'' then Some (JArray [JNumber 1])
      else None)"

definition example_URL_parse :: "string \<Rightarrow> url_parts option" where
  "example_URL_parse s =
     (if s = ''http://localhost:3128''
      then Some \<lparr>protocol = ''http:'', hostname = ''localhost'', port = ''3128'',
                  username = [], password = []\<rparr>
      else if s = ''https://example.com/x''
      then Some \<lparr>protocol = ''https:'', hostname = ''example.com'', port = [],
                  username = [], password = []\<rparr>
      else None)"

definition example_env :: env where
  "example_env =
     \<lparr>fs = Map.empty,
      JSON_parse = example_JSON_parse,
      URL_parse = example_URL_parse,
      mime_contentType = (\<lambda>t. if t = ''json'' then Some ''application/json; charset=utf-8''
                                else None),
      form_boundary = ''----boundary'',
      JSON_stringify_proxy = (\<lambda>p. ''{}''),
      JSON_stringify_options = (\<lambda>p. ''{}'')\<rparr>"

definition example_commander :: commander where
  "example_commander =
     \<lparr>verbose = False, output = None, header = [], data = None, datafile = None,
      type = None, proxy = None, cookie = None\<rparr>"

section \<open>Facts about the string operations\<close>

lemma split_not_Nil: "split s c \<noteq> []"
  by (induction s) (auto split: list.splits)

lemma split_no_sep: "c \<notin> set a \<Longrightarrow> split a c = [a]"
  by (induction a) auto

lemma split_at_first: "c \<notin> set a \<Longrightarrow> split (a @ c # b) c = a # split b c"
  by (induction a) auto

lemma get_put: "get (put ob k v) k' = (if k' = k then Some v else get ob k')"
  by (simp add: get_def put_def update_conv')

lemma indexOf_absent: "c \<notin> set s \<Longrightarrow> indexOf s c = - 1"
  by (simp add: indexOf_def)

lemma indexOf_first: "c \<notin> set a \<Longrightarrow> indexOf (a @ c # b) c = int (length a)"
  by (induction a) (auto simp: indexOf_def)



lemma takeWhile_first: "c \<notin> set a \<Longrightarrow> takeWhile (\<lambda>x. x \<noteq> c) (a @ c # b) = a"
  by (induction a) auto


lemma substring_take: "0 \<le> i \<Longrightarrow> substring s 0 i = take (nat i) s"
  by (simp add: substring_def clamp_def Let_def min_def)








section \<open>Facts about the blocks of \<^verbatim>\<open>sendRequest\<close>\<close>

lemma toUpperCase_GET: "toUpperCase ''GET'' = ''GET''"
  by code_simp


lemma sendRequest_type_fields:
  "options.url (sendRequest_type e cmd opts) = options.url opts"
  "options.method (sendRequest_type e cmd opts) = options.method opts"
  "options.data (sendRequest_type e cmd opts) = options.data opts"
  "options.proxy (sendRequest_type e cmd opts) = options.proxy opts"
  by (simp_all add: sendRequest_type_def split: option.splits)

lemma sendRequest_options_fields:
  "options.url (sendRequest_options cmd m u) = (if startsWith u ''http'' then u else ''https://'' @ u)"
  "options.method (sendRequest_options cmd m u) = m"
  "options.headers (sendRequest_options cmd m u) = header cmd"
  "options.data (sendRequest_options cmd m u) = None"
  by (simp_all add: sendRequest_options_def Let_def)

lemma sendRequest_data_fields:
  assumes "sendRequest_data e cmd opts = Inr o1"
  shows "options.url o1 = options.url opts" and "options.method o1 = options.method opts"
  using assms
  by (auto simp: sendRequest_data_def sendRequest_type_fields Let_def
      split: option.splits sum.splits arg.splits if_splits)


lemma sendRequest_method_fields:
  "options.url (fst (sendRequest_method m opts)) = options.url opts"
  "options.data (fst (sendRequest_method m opts)) = options.data opts"
  "options.headers (fst (sendRequest_method m opts)) = options.headers opts"
  "options.method (fst (sendRequest_method m opts))
     = (if body_truthy (options.data opts) \<and> toUpperCase m = ''GET'' then ''POST''
        else options.method opts)"
  "snd (sendRequest_method m opts)
     = (if body_truthy (options.data opts) \<and> toUpperCase m = ''GET''
        then [Warning ''Cannot send data with GET, POST will be used''] else [])"
  by (simp_all add: sendRequest_method_def logwarn_def)

lemma sendRequest_cookie_fields:
  assumes "sendRequest_cookie e cmd opts = Inr o3"
  shows "options.url o3 = options.url opts" and "options.method o3 = options.method opts"
    and "options.data o3 = options.data opts"
  using assms
  by (auto simp: sendRequest_cookie_def split: option.splits sum.splits if_splits)

lemma sendRequest_proxy_fields:
  assumes "sendRequest_proxy e cmd u opts = Inr (o4, plog, ax)"
  shows "options.url o4 = options.url opts" and "options.method o4 = options.method opts"
    and "options.data o4 = options.data opts" and "options.headers o4 = options.headers opts"
  using assms
  by (auto simp: sendRequest_proxy_def Let_def split: option.splits)

lemma sendRequest_Called:
  assumes "snd (sendRequest e cmd m u) = Called opts ax"
  shows "\<exists>o1 o3 plog.
           sendRequest_data e cmd (sendRequest_options cmd m u) = Inr o1
         \<and> sendRequest_cookie e cmd (fst (sendRequest_method m o1)) = Inr o3
         \<and> sendRequest_proxy e cmd u o3 = Inr (opts, plog, ax)
         \<and> fst (sendRequest e cmd m u)
             = logverbose cmd (''Sending '' @ toUpperCase m @ '' request to '' @ u) None
               @ snd (sendRequest_method m o1) @ plog
               @ logverbose cmd (''Options='' @ JSON_stringify_options e opts) None"
  using assms
  by (auto simp: sendRequest_def Let_def split: sum.splits prod.splits)

text \<open>The definitions a concrete run unfolds.\<close>

lemmas sendRequest_blocks =
  sendRequest_def sendRequest_options_def sendRequest_data_def sendRequest_type_def
  sendRequest_method_def sendRequest_cookie_def sendRequest_proxy_def
  logverbose_def logwarn_def given_def existsSync_def readFileSync_def
  getContentTypes_def getHeaders_def

lemmas examples =
  example_env_def example_commander_def example_JSON_parse_def example_URL_parse_def

section \<open>Header arguments\<close>

lemma addHeader_items:
  "split h (CHR ''='') = item0 # rest \<Longrightarrow>
   addHeader h hs = put hs item0 (case rest of [] \<Rightarrow> [] | item1 # _ \<Rightarrow> item1)"
  by (cases rest) (simp_all add: addHeader_def)

text \<open>
  \<^verbatim>\<open>name=value\<close> with a value free of \<open>=\<close> is stored as given, a name alone
  with the empty string, and a later \<^verbatim>\<open>-H\<close> of the same name overwrites an earlier
  one.
\<close>

lemma addHeader_name_value:
  assumes "CHR ''='' \<notin> set name" and "CHR ''='' \<notin> set v"
  shows "addHeader (name @ ''='' @ v) hs = put hs name v"
proof -
  have "split (name @ ''='' @ v) (CHR ''='') = [name, v]"
    using assms by (simp add: split_at_first split_no_sep)
  from addHeader_items [OF this] show ?thesis by simp
qed

lemma addHeader_name_only:
  assumes "CHR ''='' \<notin> set name"
  shows "addHeader name hs = put hs name []"
proof -
  have "split name (CHR ''='') = [name]"
    using assms by (simp add: split_no_sep)
  from addHeader_items [OF this] show ?thesis by simp
qed

lemma header_option_snoc:
  "header_option (args @ [h]) = addHeader h (header_option args)"
  by (simp add: header_option_def)

lemma header_option_last_wins:
  assumes "CHR ''='' \<notin> set name" and "CHR ''='' \<notin> set v"
  shows "get (header_option (args @ [name @ ''='' @ v])) k
           = (if k = name then Some v else get (header_option args) k)"
  using addHeader_name_value [OF assms] by (simp add: header_option_snoc get_put)

text \<open>
  C3. The claim is that \<^verbatim>\<open>name=value\<close> yields the entry of name and value. The
  value of \<^verbatim>\<open>Content-Type=text/html; charset=utf-8\<close> holds a \<open>=\<close> of its own;
  \<^verbatim>\<open>addHeader\<close> stores the value up to it, where \<^verbatim>\<open>props2json\<close>, which cuts the
  same form at the first \<open>=\<close> only, keeps the value whole.
\<close>

theorem header_value_with_equals_sign:
  "header_option [''Content-Type=text/html; charset=utf-8'']
     = [(''Content-Type'', ''text/html; charset'')]
   \<and> props2json ''Content-Type=text/html; charset=utf-8''
     = [(''Content-Type'', ''text/html; charset=utf-8'')]"
  by (simp add: header_option_def addHeader_def put_def props2json_def props2json_line_def
      indexOf_def substring_def substring_from_def clamp_def trim_def isWhiteSpace_def)



section \<open>The body of the request\<close>

lemma props2json_name_alice: "props2json ''name=alice'' = [(''name'', ''alice'')]"
  by (simp add: props2json_def props2json_line_def put_def indexOf_def substring_def
      substring_from_def clamp_def trim_def isWhiteSpace_def)

text \<open>With \<^verbatim>\<open>-D\<close> the body is the form with the file, whatever \<^verbatim>\<open>-d\<close> gives.\<close>

lemma datafile_body:
  assumes "given (datafile cmd) = Some file" and "fs e file = Some (File content)"
    and "snd (sendRequest e cmd m u) = Called opts ax"
  shows "options.data opts
           = Some (Form \<lparr>part_name = ''file'', part_content = content, filepath = file,
                          contentType = mime_contentType e file\<rparr>)"
proof -
  from assms(3) obtain o1 o3 plog where
    d: "sendRequest_data e cmd (sendRequest_options cmd m u) = Inr o1" and
    c: "sendRequest_cookie e cmd (fst (sendRequest_method m o1)) = Inr o3" and
    p: "sendRequest_proxy e cmd u o3 = Inr (opts, plog, ax)"
    using sendRequest_Called by blast
  from d assms(1,2) have "options.data o1
           = Some (Form \<lparr>part_name = ''file'', part_content = content, filepath = file,
                          contentType = mime_contentType e file\<rparr>)"
    by (auto simp: sendRequest_data_def readFileSync_def Let_def)
  moreover have "options.data opts = options.data o1"
    using sendRequest_proxy_fields(3) [OF p] sendRequest_cookie_fields(3) [OF c]
    by (simp add: sendRequest_method_fields)
  ultimately show ?thesis by simp
qed





text \<open>
  A line that begins with \<open>=\<close> is outside the agreement: line 51 tests
  \<^verbatim>\<open>eqIdx > 0\<close>, and the whole line becomes the key.
\<close>

lemma line_beginning_with_equals:
  "props2json ''=v'' = [(''=v'', [])]
   \<and> properties_parse ''=v'' [] = Some ''v'' \<and> properties_parse ''=v'' ''=v'' = None"
  by (simp add: props2json_def props2json_line_def put_def indexOf_def substring_def
      substring_from_def clamp_def trim_def isWhiteSpace_def properties_parse_def
      properties_line_def)

text \<open>
  C8. The claim is that every backslash followed by a line feed is collapsed to a
  space before the text is split into lines. The pattern of line 47 has no \<^verbatim>\<open>g\<close>
  flag and \<^verbatim>\<open>replace\<close> replaces its first match only: in a value continued over
  three lines the second backslash stays and the third line becomes a key of its own,
  where collapsing all gives the one line \<^verbatim>\<open>a=1 2 3\<close>.
\<close>

theorem second_continuation_kept:
  "props2json [CHR ''a'', CHR ''='', CHR ''1'', CHR 0x5C, CHR 0x0A,
               CHR ''2'', CHR 0x5C, CHR 0x0A, CHR ''3'']
     = [(''a'', [CHR ''1'', CHR '' '', CHR ''2'', CHR 0x5C]), (''3'', [])]
   \<and> collapse [CHR ''a'', CHR ''='', CHR ''1'', CHR 0x5C, CHR 0x0A,
                CHR ''2'', CHR 0x5C, CHR 0x0A, CHR ''3''] = ''a=1 2 3''"
  by (simp add: props2json_def props2json_line_def put_def indexOf_def substring_def
      substring_from_def clamp_def trim_def isWhiteSpace_def)

section \<open>A body is not sent with GET\<close>

lemma toUpperCase_get: "toUpperCase ''get'' = ''GET''"
  by code_simp

lemma logverbose_no_Warning: "Warning w \<notin> set (logverbose cmd msg dat)"
  by (simp add: logverbose_def split: option.splits)

lemma sendRequest_proxy_no_Warning:
  "sendRequest_proxy e cmd u opts = Inr (o4, plog, ax) \<Longrightarrow> Warning w \<notin> set plog"
  by (auto simp: sendRequest_proxy_def Let_def logverbose_no_Warning split: option.splits if_splits)

text \<open>
  \<^verbatim>\<open>if (options.data && ...)\<close> takes the object of the properties parse for true,
  whatever it holds.
\<close>

lemma properties_body_truthy: "body_truthy (Some (Value (object_value ob)))"
  by (simp add: object_value_def)

text \<open>
  C2, as amended. For every request that is sent: when its body is true in
  JavaScript's sense (the test of \<^verbatim>\<open>if (options.data && ...)\<close>: not \<^verbatim>\<open>undefined\<close>,
  \<^verbatim>\<open>null\<close>, \<^verbatim>\<open>false\<close>, \<open>0\<close> or the empty string) and the method is GET, the
  method of the request is POST and the warning is printed; in every other case, and
  so for every method other than GET, the method is the one given and the warning is
  not printed.
\<close>

theorem get_with_body_becomes_post:
  assumes "snd (sendRequest e cmd m u) = Called opts ax"
  shows "(body_truthy (options.data opts) \<and> toUpperCase m = ''GET''
          \<longrightarrow> options.method opts = ''POST''
              \<and> Warning ''Cannot send data with GET, POST will be used''
                   \<in> set (fst (sendRequest e cmd m u)))
       \<and> (\<not> (body_truthy (options.data opts) \<and> toUpperCase m = ''GET'')
          \<longrightarrow> options.method opts = m
              \<and> Warning ''Cannot send data with GET, POST will be used''
                   \<notin> set (fst (sendRequest e cmd m u)))"
proof -
  from assms obtain o1 o3 plog where
    d: "sendRequest_data e cmd (sendRequest_options cmd m u) = Inr o1" and
    c: "sendRequest_cookie e cmd (fst (sendRequest_method m o1)) = Inr o3" and
    p: "sendRequest_proxy e cmd u o3 = Inr (opts, plog, ax)" and
    printed: "fst (sendRequest e cmd m u)
             = logverbose cmd (''Sending '' @ toUpperCase m @ '' request to '' @ u) None
               @ snd (sendRequest_method m o1) @ plog
               @ logverbose cmd (''Options='' @ JSON_stringify_options e opts) None"
    using sendRequest_Called by blast
  have body: "options.data opts = options.data o1"
    using sendRequest_proxy_fields(3) [OF p] sendRequest_cookie_fields(3) [OF c]
    by (simp add: sendRequest_method_fields)
  have "options.method o1 = m"
    using sendRequest_data_fields(2) [OF d] by (simp add: sendRequest_options_fields)
  then have meth: "options.method opts
      = (if body_truthy (options.data o1) \<and> toUpperCase m = ''GET'' then ''POST'' else m)"
    using sendRequest_proxy_fields(2) [OF p] sendRequest_cookie_fields(2) [OF c]
    by (simp add: sendRequest_method_fields)
  have warn: "Warning ''Cannot send data with GET, POST will be used''
                \<in> set (fst (sendRequest e cmd m u))
              \<longleftrightarrow> body_truthy (options.data o1) \<and> toUpperCase m = ''GET''"
    using sendRequest_proxy_no_Warning [OF p]
    by (simp add: printed logverbose_no_Warning sendRequest_method_fields)
  show ?thesis
    using body meth warn by simp
qed

theorem get_with_body_becomes_post_witness:
  "sendRequest example_env (example_commander\<lparr>commander.data := Some (Str ''name=alice'')\<rparr>)
     ''GET'' ''https://example.com/x''
     = ([Warning ''Cannot send data with GET, POST will be used''],
        Called \<lparr>url = ''https://example.com/x'', method = ''POST'', responseType = None,
                 headers = [], data = Some (Value (JObject [(''name'', JString ''alice'')])),
                 proxy = None\<rparr> Axios)
   \<and> sendRequest example_env (example_commander\<lparr>commander.data := Some (Str ''name=alice'')\<rparr>)
     ''PUT'' ''https://example.com/x''
     = ([],
        Called \<lparr>url = ''https://example.com/x'', method = ''PUT'', responseType = None,
                 headers = [], data = Some (Value (JObject [(''name'', JString ''alice'')])),
                 proxy = None\<rparr> Axios)"
proof -
  let ?cmd = "example_commander\<lparr>commander.data := Some (Str ''name=alice'')\<rparr>"
  let ?post = "\<lparr>url = ''https://example.com/x'', method = ''POST'', responseType = None,
               headers = [], data = Some (Value (JObject [(''name'', JString ''alice'')])),
               proxy = None\<rparr>"
  let ?put = "\<lparr>url = ''https://example.com/x'', method = ''PUT'', responseType = None,
               headers = [], data = Some (Value (JObject [(''name'', JString ''alice'')])),
               proxy = None\<rparr>"
  have up: "toUpperCase ''PUT'' = ''PUT''"
    by code_simp
  have get: "sendRequest example_env ?cmd ''GET'' ''https://example.com/x''
               = ([Warning ''Cannot send data with GET, POST will be used''], Called ?post Axios)"
    by (simp add: sendRequest_blocks examples startsWith_def toUpperCase_GET
        props2json_name_alice object_value_def)
  have put: "sendRequest example_env ?cmd ''PUT'' ''https://example.com/x''
               = ([], Called ?put Axios)"
    by (simp add: sendRequest_blocks examples startsWith_def up
        props2json_name_alice object_value_def)
  have "options.method ?post = ''POST''
        \<and> Warning ''Cannot send data with GET, POST will be used''
             \<in> set (fst (sendRequest example_env ?cmd ''GET'' ''https://example.com/x''))"
    using get_with_body_becomes_post [of example_env ?cmd "''GET''" "''https://example.com/x''"
        ?post Axios]
    by (simp add: get toUpperCase_GET)
  moreover have "options.method ?put = ''PUT''
        \<and> Warning ''Cannot send data with GET, POST will be used''
             \<notin> set (fst (sendRequest example_env ?cmd ''PUT'' ''https://example.com/x''))"
    using get_with_body_becomes_post [of example_env ?cmd "''PUT''" "''https://example.com/x''"
        ?put Axios]
    by (simp add: put up)
  ultimately show ?thesis
    using get put by simp
qed

text \<open>
  The claim as it stands fails on \<^verbatim>\<open>get <url> -d 0\<close>: the data string is JSON, the
  body of the request is the number 0, and the request goes out with GET and without
  a warning.
\<close>

theorem get_with_zero_body_stays_get:
  "JSON_parse example_env ''0'' = Some (JNumber 0)
   \<and> configureMethodCommand ''get'' example_env
        (example_commander\<lparr>commander.data := Some (Str ''0'')\<rparr>) ''https://example.com/x''
       = ([], Called \<lparr>url = ''https://example.com/x'', method = ''GET'', responseType = None,
                     headers = [], data = Some (Value (JNumber 0)), proxy = None\<rparr> Axios)"
  by (simp add: configureMethodCommand_def sendRequest_blocks examples startsWith_def
      toUpperCase_get toUpperCase_GET)

section \<open>The URL of the request\<close>

text \<open>
  What the request is sent to: the URL itself when it begins with the four characters
  \<^verbatim>\<open>http\<close>, and the URL after \<^verbatim>\<open>https://\<close> otherwise.
\<close>

lemma sendRequest_url:
  assumes "snd (sendRequest e cmd m u) = Called opts ax"
  shows "options.url opts = (if startsWith u ''http'' then u else ''https://'' @ u)"
proof -
  from assms obtain o1 o3 plog where
    d: "sendRequest_data e cmd (sendRequest_options cmd m u) = Inr o1" and
    c: "sendRequest_cookie e cmd (fst (sendRequest_method m o1)) = Inr o3" and
    p: "sendRequest_proxy e cmd u o3 = Inr (opts, plog, ax)"
    using sendRequest_Called by blast
  show ?thesis
    using sendRequest_proxy_fields(1) [OF p] sendRequest_cookie_fields(1) [OF c]
      sendRequest_data_fields(1) [OF d]
    by (simp add: sendRequest_method_fields sendRequest_options_fields)
qed

text \<open>
  C7. The claim is that a URL that does not begin with a scheme is sent with
  \<^verbatim>\<open>https://\<close> before it. Line 129 tests \<^verbatim>\<open>startsWith('http')\<close>: the text
  \<^verbatim>\<open>httpbin.org/get\<close> has no colon, so it begins with no scheme at all, and is sent
  as it is.
\<close>

theorem host_beginning_with_http:
  "CHR '':'' \<notin> set ''httpbin.org/get''
   \<and> sendRequest example_env example_commander ''GET'' ''httpbin.org/get''
       = ([], Called \<lparr>url = ''httpbin.org/get'', method = ''GET'', responseType = None,
                     headers = [], data = None, proxy = None\<rparr> Axios)"
  by (simp add: sendRequest_blocks examples startsWith_def toUpperCase_GET)

text \<open>
  With \<^verbatim>\<open>-p\<close>, line 189 parses \<^verbatim>\<open>url\<close>, not \<^verbatim>\<open>options.url\<close>: on a URL without
  scheme \<^verbatim>\<open>new URL\<close> throws and no request is sent.
\<close>

lemma proxy_and_url_without_scheme:
  "URL_parse example_env ''example.com/x'' = None
   \<and> sendRequest example_env (example_commander\<lparr>commander.proxy := Some ''http://localhost:3128''\<rparr>)
        ''GET'' ''example.com/x''
       = ([], Thrown (Invalid_URL ''example.com/x''))"
  by (simp add: sendRequest_blocks examples startsWith_def toUpperCase_GET)

section \<open>The cookie file\<close>

lemma join_Cons: "xs \<noteq> [] \<Longrightarrow> join (x # xs) sep = x @ sep @ join xs sep"
  by (cases xs) simp_all

lemma split_join:
  "xs \<noteq> [] \<Longrightarrow> list_all (\<lambda>x. c \<notin> set x) xs \<Longrightarrow> split (join xs [c]) c = xs"
proof (induction xs)
  case Nil
  then show ?case by simp
next
  case (Cons x xs)
  show ?case
  proof (cases "xs = []")
    case True
    with Cons.prems show ?thesis by (simp add: split_no_sep)
  next
    case False
    with Cons show ?thesis by (simp add: join_Cons split_at_first)
  qed
qed

lemma cookie_line:
  "\<not> startsWith v '';'' \<Longrightarrow>
   substring v 0 (if indexOf v (CHR '';'') > 0 then indexOf v (CHR '';'') else int (length v))
     = takeWhile (\<lambda>c. c \<noteq> CHR '';'') v"
proof (cases "CHR '';'' \<in> set v")
  case False
  then have tw: "takeWhile (\<lambda>c. c \<noteq> CHR '';'') v = v"
    by (auto simp: takeWhile_eq_all_conv)
  show ?thesis
    using False by (simp add: indexOf_absent substring_take tw)
next
  case True
  assume ns: "\<not> startsWith v '';''"
  from True obtain a b where v: "v = a @ CHR '';'' # b" and a: "CHR '';'' \<notin> set a"
    by (auto dest: split_list_first)
  from ns v have "a \<noteq> []"
    by (cases a) (auto simp: startsWith_def)
  then show ?thesis
    using a v by (simp add: indexOf_first substring_take takeWhile_first)
qed

lemma map_cookie_line:
  "list_all (\<lambda>v. \<not> startsWith v '';'') ls \<Longrightarrow>
   map (\<lambda>v. substring v 0 (if indexOf v (CHR '';'') > 0 then indexOf v (CHR '';'')
                             else int (length v))) ls
     = map (takeWhile (\<lambda>c. c \<noteq> CHR '';'')) ls"
  by (induction ls) (simp_all add: cookie_line)

lemma cookie_value_strip:
  assumes "list_all (\<lambda>v. \<not> startsWith v '';'') (split content (CHR 0x0A))"
  shows "cookie_value content
           = join (map (takeWhile (\<lambda>c. c \<noteq> CHR '';'')) (split content (CHR 0x0A))) ''; ''"
  by (simp only: cookie_value_def map_cookie_line [OF assms])






text \<open>
  In general: what is read back from the file the handler wrote is, cookie by
  cookie, the text before the first \<open>;\<close>, and the sentinel, provided no cookie
  holds a line feed or begins with \<open>;\<close>.
\<close>

lemma cookie_value_saved:
  assumes "list_all (\<lambda>c. CHR 0x0A \<notin> set c \<and> \<not> startsWith c '';'') cs"
  shows "cookie_value (join (cs @ [''hello=world'']) ''\<newline>'')
           = join (map (takeWhile (\<lambda>c. c \<noteq> CHR '';'')) cs @ [''hello=world'']) ''; ''"
proof -
  let ?ls = "cs @ [''hello=world'']"
  have nl: "list_all (\<lambda>x. CHR 0x0A \<notin> set x) ?ls"
    using assms by (simp add: list_all_iff)
  have sc: "list_all (\<lambda>v. \<not> startsWith v '';'') ?ls"
    using assms by (simp add: list_all_iff startsWith_def)
  have lines: "split (join ?ls ''\<newline>'') (CHR 0x0A) = ?ls"
    using split_join [OF _ nl] by simp
  show ?thesis
    using cookie_value_strip [of "join ?ls ''\<newline>''"] sc
    by (simp add: lines)
qed

text \<open>
  C5. The claim is that everything from the first \<open>;\<close> of a line onward is
  stripped. Line 179 tests \<^verbatim>\<open>v.indexOf(';') > 0\<close>, so a line that begins with
  \<open>;\<close> is kept whole (\<open>cookie_value_strip\<close> above covers all other lines). Here the
  file has the lines \<^verbatim>\<open>a=1; Path=/\<close> and \<^verbatim>\<open>;b=2\<close>: the header is
  \<^verbatim>\<open>a=1; ;b=2\<close>, where stripping both lines gives \<^verbatim>\<open>a=1; \<close>.
\<close>

theorem cookie_line_beginning_with_semicolon:
  "sendRequest_cookie (example_env\<lparr>fs := [''jar'' \<mapsto> File ''a=1; Path=/\<newline>;b=2'']\<rparr>)
     (example_commander\<lparr>cookie := Some ''jar''\<rparr>)
     \<lparr>url = ''https://example.com/x'', method = ''GET'', responseType = None,
       headers = [], data = None, proxy = None\<rparr>
     = Inr \<lparr>url = ''https://example.com/x'', method = ''GET'', responseType = None,
             headers = [(''cookie'', ''a=1; ;b=2'')], data = None, proxy = None\<rparr>
   \<and> sendRequest_cookie_http_cli
       (example_env\<lparr>fs := [''jar'' \<mapsto> File ''a=1; Path=/\<newline>;b=2'']\<rparr>)
       (example_commander\<lparr>cookie := Some ''jar''\<rparr>)
       \<lparr>url = ''https://example.com/x'', method = ''GET'', responseType = None,
         headers = [], data = None, proxy = None\<rparr>
     = Inr \<lparr>url = ''https://example.com/x'', method = ''GET'', responseType = None,
             headers = [(''Cookie'', ''a=1; ;b=2'')], data = None, proxy = None\<rparr>
   \<and> join (map (takeWhile (\<lambda>c. c \<noteq> CHR '';'')) (split ''a=1; Path=/\<newline>;b=2'' (CHR 0x0A))) ''; ''
       = ''a=1; ''"
  by (simp add: sendRequest_cookie_def sendRequest_cookie_http_cli_def existsSync_def
      readFileSync_def given_def example_commander_def cookie_value_def indexOf_def
      substring_def clamp_def put_def)











section \<open>The headers in the interceptor\<close>
















lemma toLowerCase_examples:
  "toLowerCase ''Accept'' = ''accept''" "toLowerCase ''X-A'' = ''x-a''"
  "toLowerCase ''x-a'' = ''x-a''" "toLowerCase ''accept'' = ''accept''"
  by code_simp+





text \<open>
  Within one layer the property order decides, not the order of the assignments: the
  third \<^verbatim>\<open>-H\<close> overwrites the first in its place, before the second.
\<close>

lemma keysToLower_property_order:
  "header_option [''X-A=1'', ''x-a=2'', ''X-A=3''] = [(''X-A'', ''3''), (''x-a'', ''2'')]
   \<and> keysToLower (header_option [''X-A=1'', ''x-a=2'', ''X-A=3'']) = [(''x-a'', ''2'')]"
  by (simp add: header_option_def addHeader_def keysToLower_def transform_def put_def
      toLowerCase_examples)

end
